theory Spec2Isabelle
  imports Main "HOL-Library.Sublist"
begin

section \<open>Data model\<close>

text \<open>
  A shape is a tuple of optional integers: \<open>None\<close> marks a variable-length axis
  (Python's \<^verbatim>\<open>SHAPE_TYPE\<close>).
\<close>

type_synonym shape = "int option list"

text \<open>
  \<^verbatim>\<open>ExposedTensor\<close> (model.py, lines 15-34). The field \<open>model\<close> holds the owning
  \<^verbatim>\<open>Model\<close>. A \<^verbatim>\<open>Model\<close> is a dataclass compared on (name, repository, platform), and
  the ensemble resolves its members with \<^verbatim>\<open>self.repository.models[step.model_name]\<close>.
  Modelled from the spec: the repository (\<^verbatim>\<open>ModelRepository\<close>) is not among the sources;
  a model's name is unique within its repository, so a model is identified here by its
  name and \<open>model t\<close> is the name of the model that owns the tensor \<open>t\<close>.
\<close>

record exposed_tensor =
  model :: string
  name :: string
  shape :: shape

text \<open>
  Modelled from the spec: the configuration object (\<^verbatim>\<open>ModelConfig\<close>, a wrapper of the
  inference server's protobuf message) is not among the sources. The spec gives it the
  enumerable collections \<^verbatim>\<open>input\<close>, \<^verbatim>\<open>output\<close> and \<^verbatim>\<open>ensemble_scheduling.step\<close> and the
  operations \<^verbatim>\<open>add_input\<close>, \<^verbatim>\<open>add_output\<close> and \<^verbatim>\<open>add_step\<close>. An entry of \<^verbatim>\<open>input\<close> or
  \<^verbatim>\<open>output\<close> has a name and its \<^verbatim>\<open>dims\<close>, where a variable-length axis is stored as -1
  (model.py, line 113; platform.py, lines 155-159).
\<close>

record tensor_entry =
  entry_name :: string
  dims :: "int list"

text \<open>
  Modelled from the spec: a step is a member model's name, its version and two maps from
  tensor names to routing keys, "each entry's absence represented by an empty key": a
  map is given by its lookup function, the empty string standing for no entry.
\<close>

record step =
  model_name :: string
  model_version :: "int option"
  input_map :: "string \<Rightarrow> string"
  output_map :: "string \<Rightarrow> string"

record config =
  config_name :: string
  "input" :: "tensor_entry list"
  "output" :: "tensor_entry list"
  steps :: "step list"

datatype exposed_type = Input | Output

text \<open>
  Every failure below is a Python exception. The routing and validation code raises
  \<^verbatim>\<open>ValueError\<close> at each site; the sites are told apart by the kind the spec gives them:
  \<^item> \<open>ConfigurationError\<close>: platform.py line 98, "Must specify ... shapes";
  \<^item> \<open>InvalidShapeError\<close>: platform.py line 118, variable length axes outside of the
    first dimension;
  \<^item> \<open>ShapeMismatchError\<close>: platform.py lines 144 and 164, model.py line 393;
  \<^item> \<open>DuplicateKeyError\<close>: model.py lines 305 and 326, "Already added ... using key";
  \<^item> \<open>KeyConflictError\<close>: model.py lines 427 and 453;
  \<^item> \<open>MaxOfEmptyError\<close>: the \<^verbatim>\<open>ValueError\<close> of \<^verbatim>\<open>max\<close> on an empty list (model.py line 221);
  \<^item> \<open>UnboundLocalError\<close>: reading the loop variable \<^verbatim>\<open>step\<close> after a loop over no steps;
  \<^item> \<open>KeyError\<close>: a dictionary read of a missing key;
  \<^item> \<open>AttributeError\<close>: reading an attribute that the object does not have;
  \<^item> \<open>NoFilesFoundError\<close>: local.py line 60;
  \<^item> \<open>FileNotFoundError\<close>, \<open>NotADirectoryError\<close>: the \<^verbatim>\<open>OSError\<close>s of \<^verbatim>\<open>os.listdir\<close> and
    \<^verbatim>\<open>os.makedirs\<close>;
  \<^item> \<open>NoExporterError\<close>: the \<^verbatim>\<open>TypeError\<close> of model.py line 170;
  \<^item> \<open>ExportError n\<close>: any exception raised by the exporter or by writing the config.
\<close>

datatype error =
    ConfigurationError
  | InvalidShapeError
  | ShapeMismatchError
  | DuplicateKeyError
  | KeyConflictError
  | MaxOfEmptyError
  | UnboundLocalError
  | KeyError
  | AttributeError
  | NoFilesFoundError
  | FileNotFoundError
  | NotADirectoryError
  | NoExporterError
  | ExportError nat

section \<open>Python dictionaries\<close>

text \<open>
  A dictionary keeps its keys in insertion order and holds each key once: an association
  list whose assignment overwrites in place or appends.
\<close>

type_synonym ('k, 'v) dict = "('k \<times> 'v) list"

fun dict_set :: "('k, 'v) dict \<Rightarrow> 'k \<Rightarrow> 'v \<Rightarrow> ('k, 'v) dict" where
  "dict_set [] k v = [(k, v)]"
| "dict_set ((k', v') # d) k v =
     (if k' = k then (k, v) # d else (k', v') # dict_set d k v)"

definition dict_of :: "('k \<times> 'v) list \<Rightarrow> ('k, 'v) dict" where
  "dict_of kvs = foldl (\<lambda>d (k, v). dict_set d k v) [] kvs"

definition dict_get :: "('k, 'v) dict \<Rightarrow> 'k \<Rightarrow> 'v option" where
  "dict_get d k = map_of d k"

definition dict_keys :: "('k, 'v) dict \<Rightarrow> 'k list" where
  "dict_keys d = map fst d"

section \<open>The configuration's operations\<close>

text \<open>\<^verbatim>\<open>x if x != -1 else None\<close> (model.py, lines 113 and 126).\<close>

definition dim_to_axis :: "int \<Rightarrow> int option" where
  "dim_to_axis x = (if x \<noteq> -1 then Some x else None)"

text \<open>Modelled from the spec: a shape registered into the configuration stores -1 for a
  variable-length axis.\<close>

definition axis_to_dim :: "int option \<Rightarrow> int" where
  "axis_to_dim a = (case a of None \<Rightarrow> -1 | Some n \<Rightarrow> n)"

text \<open>Modelled from the spec: \<^verbatim>\<open>config.add_input(name, shape, dtype)\<close> and
  \<^verbatim>\<open>config.add_output(name, shape, dtype)\<close> register the name/shape pair as a new entry.\<close>

definition config_add_input :: "config \<Rightarrow> string \<Rightarrow> shape \<Rightarrow> config" where
  "config_add_input cfg k sh =
     cfg\<lparr>input := input cfg @ [\<lparr>entry_name = k, dims = map axis_to_dim sh\<rparr>]\<rparr>"

definition config_add_output :: "config \<Rightarrow> string \<Rightarrow> shape \<Rightarrow> config" where
  "config_add_output cfg k sh =
     cfg\<lparr>output := output cfg @ [\<lparr>entry_name = k, dims = map axis_to_dim sh\<rparr>]\<rparr>"

text \<open>Modelled from the spec: \<^verbatim>\<open>config.add_step(model, version)\<close> appends a new step
  referencing the model, optionally with a pinned version; its maps have no entry.\<close>

definition add_step :: "config \<Rightarrow> string \<Rightarrow> int option \<Rightarrow> config" where
  "add_step cfg m version =
     cfg\<lparr>steps := steps cfg @
       [\<lparr>model_name = m, model_version = version,
         input_map = (\<lambda>_. []), output_map = (\<lambda>_. [])\<rparr>]\<rparr>"

section \<open>Model: the exposed tensors\<close>

text \<open>\<^verbatim>\<open>Model.inputs\<close> and \<^verbatim>\<open>Model.outputs\<close> (model.py, lines 104-128): a dictionary from
  the name of each entry to its \<^verbatim>\<open>ExposedTensor\<close>.\<close>

definition exposed_of :: "string \<Rightarrow> tensor_entry list \<Rightarrow> (string, exposed_tensor) dict" where
  "exposed_of owner es =
     foldl (\<lambda>d e. dict_set d (entry_name e)
              \<lparr>model = owner, name = entry_name e, shape = map dim_to_axis (dims e)\<rparr>) [] es"

definition inputs :: "config \<Rightarrow> (string, exposed_tensor) dict" where
  "inputs cfg = exposed_of (config_name cfg) (input cfg)"

definition outputs :: "config \<Rightarrow> (string, exposed_tensor) dict" where
  "outputs cfg = exposed_of (config_name cfg) (output cfg)"

section \<open>EnsembleModel\<close>

text \<open>
  The attribute \<^verbatim>\<open>_config\<close> of an ensemble model. Nothing in the sources sets it:
  \<^verbatim>\<open>Model.__post_init__\<close> (model.py, line 79) sets \<^verbatim>\<open>config\<close> only, and neither \<^verbatim>\<open>Model\<close>
  nor \<^verbatim>\<open>EnsembleModel\<close> defines \<^verbatim>\<open>__getattr__\<close>. Reading it raises \<^verbatim>\<open>AttributeError\<close>.
\<close>

definition private_config :: "config \<Rightarrow> error + config" where
  "private_config cfg = Inl AttributeError"

text \<open>\<^verbatim>\<open>EnsembleModel.models\<close> (model.py, lines 268-274): the member of each step of
  \<^verbatim>\<open>self._config\<close>, in order. A member is identified by its name.\<close>

definition models :: "config \<Rightarrow> error + string list" where
  "models cfg =
     (case private_config cfg of
        Inl e \<Rightarrow> Inl e
      | Inr c \<Rightarrow> Inr (map model_name (steps c)))"

text \<open>\<^verbatim>\<open>EnsembleModel._update_step_map\<close> (model.py, lines 276-287): every step of the
  tensor's model gets \<^verbatim>\<open>step_map[tensor.name] = key\<close>. The steps are read from
  \<^verbatim>\<open>self.config\<close> here.\<close>

definition set_step_map :: "exposed_type \<Rightarrow> string \<Rightarrow> string \<Rightarrow> step \<Rightarrow> step" where
  "set_step_map et n k s =
     (case et of
        Input \<Rightarrow> s\<lparr>input_map := (input_map s)(n := k)\<rparr>
      | Output \<Rightarrow> s\<lparr>output_map := (output_map s)(n := k)\<rparr>)"

definition update_step_map :: "config \<Rightarrow> exposed_tensor \<Rightarrow> string \<Rightarrow> exposed_type \<Rightarrow> config" where
  "update_step_map cfg t k et =
     cfg\<lparr>steps := map (\<lambda>s. if model_name s = model t then set_step_map et (name t) k s else s)
                       (steps cfg)\<rparr>"

text \<open>\<^verbatim>\<open>key or tensor.name\<close>: an absent key and the empty key both give the tensor's name.\<close>

definition key_or :: "string option \<Rightarrow> string \<Rightarrow> string" where
  "key_or key n = (case key of None \<Rightarrow> n | Some k \<Rightarrow> if k = [] then n else k)"

text \<open>\<^verbatim>\<open>if tensor.model not in self.models: self.config.add_step(tensor.model, version)\<close>
  (model.py, lines 295-296, 316-317 and 402-404). The test evaluates \<^verbatim>\<open>self.models\<close>, whose
  error leaves the statement before anything is added.\<close>

definition ensure_step :: "config \<Rightarrow> string \<Rightarrow> int option \<Rightarrow> error + config" where
  "ensure_step cfg m version =
     (case models cfg of
        Inl e \<Rightarrow> Inl e
      | Inr ms \<Rightarrow> Inr (if m \<notin> set ms then add_step cfg m version else cfg))"

text \<open>
  The loop \<^verbatim>\<open>for step in ...: if step.model_name == n: break\<close> (model.py, lines 408-410
  and 438-440) leaves \<^verbatim>\<open>step\<close> at the first step of that name, at the last step when no
  step has the name, and unbound when there is no step.
\<close>

fun find_step :: "string \<Rightarrow> step list \<Rightarrow> step option" where
  "find_step n [] = None"
| "find_step n [s] = Some s"
| "find_step n (s # ss) = (if model_name s = n then Some s else find_step n ss)"

text \<open>\<^verbatim>\<open>EnsembleModel.add_input\<close> (model.py, lines 289-308). The configuration is mutated
  in place, so the state reached is returned with the error as well.\<close>

definition add_input ::
  "config \<Rightarrow> exposed_tensor \<Rightarrow> int option \<Rightarrow> string option \<Rightarrow> (error + exposed_tensor) \<times> config"
where
  "add_input cfg inp version key =
     (case ensure_step cfg (model inp) version of
        Inl e \<Rightarrow> (Inl e, cfg)
      | Inr cfg1 \<Rightarrow>
          (let k = key_or key (name inp)
           in if k \<notin> set (dict_keys (inputs cfg1)) then
                (let cfg2 = config_add_input cfg1 k (shape inp);
                     cfg3 = update_step_map cfg2 inp k Input
                 in (case dict_get (inputs cfg3) k of
                       None \<Rightarrow> (Inl KeyError, cfg3)
                     | Some t \<Rightarrow> (Inr t, cfg3)))
              else (Inl DuplicateKeyError, cfg1)))"

text \<open>\<^verbatim>\<open>EnsembleModel.add_output\<close> (model.py, lines 310-329). The key is looked up in
  \<^verbatim>\<open>self.inputs\<close> (line 322), and the result is read from \<^verbatim>\<open>self.outputs\<close> (line 329).\<close>

definition add_output ::
  "config \<Rightarrow> exposed_tensor \<Rightarrow> int option \<Rightarrow> string option \<Rightarrow> (error + exposed_tensor) \<times> config"
where
  "add_output cfg outp version key =
     (case ensure_step cfg (model outp) version of
        Inl e \<Rightarrow> (Inl e, cfg)
      | Inr cfg1 \<Rightarrow>
          (let k = key_or key (name outp)
           in if k \<notin> set (dict_keys (inputs cfg1)) then
                (let cfg2 = config_add_output cfg1 k (shape outp);
                     cfg3 = update_step_map cfg2 outp k Output
                 in (case dict_get (outputs cfg3) k of
                       None \<Rightarrow> (Inl KeyError, cfg3)
                     | Some t \<Rightarrow> (Inr t, cfg3)))
              else (Inl DuplicateKeyError, cfg1)))"

text \<open>\<^verbatim>\<open>EnsembleModel.pipe\<close>, lines 437-457: the inbound tensor's step and its input map.
  The loop runs over the list that the loop of line 408 ran over, which has a step then.\<close>

definition pipe_inbound :: "config \<Rightarrow> exposed_tensor \<Rightarrow> string \<Rightarrow> (error + unit) \<times> config" where
  "pipe_inbound cfg inbound k =
     (case find_step (model inbound) (steps cfg) of
        None \<Rightarrow> (Inl UnboundLocalError, cfg)
      | Some s \<Rightarrow>
          (let existing_key = input_map s (name inbound)
           in if existing_key = [] then (Inr (), update_step_map cfg inbound k Input)
              else if existing_key \<noteq> k then (Inl KeyConflictError, cfg)
              else (Inr (), cfg)))"

text \<open>\<^verbatim>\<open>EnsembleModel.pipe\<close> (model.py, lines 385-457). After the shape test, the loop of
  lines 401-404 takes the inbound tensor first, then the outbound tensor.\<close>

definition pipe ::
  "config \<Rightarrow> exposed_tensor \<Rightarrow> exposed_tensor \<Rightarrow> string option \<Rightarrow> (error + unit) \<times> config"
where
  "pipe cfg outbound inbound key =
     (if \<not> (shape outbound = shape inbound) then (Inl ShapeMismatchError, cfg)
      else
        (case ensure_step cfg (model inbound) None of
           Inl e \<Rightarrow> (Inl e, cfg)
         | Inr cfg0 \<Rightarrow>
             (case ensure_step cfg0 (model outbound) None of
                Inl e \<Rightarrow> (Inl e, cfg0)
              | Inr cfg1 \<Rightarrow>
                  (case find_step (model outbound) (steps cfg1) of
                     None \<Rightarrow> (Inl UnboundLocalError, cfg1)
                   | Some s \<Rightarrow>
                       (let existing_key = output_map s (name outbound)
                        in if existing_key = [] then
                             (let k = key_or key (name outbound)
                              in pipe_inbound (update_step_map cfg1 outbound k Output) inbound k)
                           else if key \<noteq> None \<and> existing_key \<noteq> the key then
                             (Inl KeyConflictError, cfg1)
                           else pipe_inbound cfg1 inbound existing_key)))))"

section \<open>Decimal numerals\<close>

text \<open>Python's \<^verbatim>\<open>str\<close> of an integer: the decimal digits, with a minus sign when negative.\<close>

function str_nat :: "nat \<Rightarrow> string" where
  "str_nat n =
     (if n < 10 then [''0123456789'' ! n]
      else str_nat (n div 10) @ [''0123456789'' ! (n mod 10)])"
  by pat_completeness auto
termination
  by (relation "measure id") auto

declare str_nat.simps [simp del]

definition str_int :: "int \<Rightarrow> string" where
  "str_int i = (if i < 0 then CHR ''-'' # str_nat (nat (- i)) else str_nat (nat i))"

text \<open>
  Python's \<^verbatim>\<open>int\<close> of a string, for ASCII text: surrounding white space is dropped,
  one sign may lead, and the digits may be grouped by single underscores. \<open>None\<close> is the
  \<^verbatim>\<open>ValueError\<close> of a string that is no numeral.
\<close>

definition digit_val :: "char \<Rightarrow> nat option" where
  "digit_val c = map_of (zip ''0123456789'' [0, 1, 2, 3, 4, 5, 6, 7, 8, 9]) c"

fun parse_digits :: "nat \<Rightarrow> string \<Rightarrow> nat option" where
  "parse_digits acc [] = Some acc"
| "parse_digits acc [c] =
     (case digit_val c of None \<Rightarrow> None | Some v \<Rightarrow> Some (acc * 10 + v))"
| "parse_digits acc (c # d # ds) =
     (if c = CHR ''_'' then
        (case digit_val d of None \<Rightarrow> None | Some v \<Rightarrow> parse_digits (acc * 10 + v) ds)
      else
        (case digit_val c of None \<Rightarrow> None | Some v \<Rightarrow> parse_digits (acc * 10 + v) (d # ds)))"

definition parse_unsigned :: "string \<Rightarrow> nat option" where
  "parse_unsigned s =
     (case s of [] \<Rightarrow> None
      | d # ds \<Rightarrow> (case digit_val d of None \<Rightarrow> None | Some v \<Rightarrow> parse_digits v ds))"

definition is_space :: "char \<Rightarrow> bool" where
  "is_space c \<longleftrightarrow> c \<in> set [CHR '' '', CHR 0x09, CHR 0x0A, CHR 0x0B, CHR 0x0C, CHR 0x0D]"

definition strip :: "string \<Rightarrow> string" where
  "strip s = rev (dropWhile is_space (rev (dropWhile is_space s)))"

definition int_of_string :: "string \<Rightarrow> int option" where
  "int_of_string s =
     (case strip s of
        [] \<Rightarrow> None
      | c # cs \<Rightarrow>
          if c = CHR ''-'' then map_option (\<lambda>n. - int n) (parse_unsigned cs)
          else if c = CHR ''+'' then map_option int (parse_unsigned cs)
          else map_option int (parse_unsigned (c # cs)))"

section \<open>Shape validation\<close>

text \<open>
  The shapes handed to \<^verbatim>\<open>_check_exposed_tensors\<close>: a sequence of shapes or a dictionary
  from names to shapes, given by its items in order. A dictionary holds each key once, so
  the items are read through \<open>dict_of\<close>.
\<close>

datatype provided_shapes = ShapeSeq "shape list" | ShapeDict "(string \<times> shape) list"

definition exposed_type_str :: "exposed_type \<Rightarrow> string" where
  "exposed_type_str et = (case et of Input \<Rightarrow> ''input'' | Output \<Rightarrow> ''output'')"

text \<open>\<^verbatim>\<open>getattr(self.model.config, exposed_type)\<close> (platform.py, line 92).\<close>

definition exposed_entries :: "exposed_type \<Rightarrow> config \<Rightarrow> tensor_entry list" where
  "exposed_entries et cfg = (case et of Input \<Rightarrow> input cfg | Output \<Rightarrow> output cfg)"

text \<open>\<^verbatim>\<open>getattr(self.model.config, "add_" + exposed_type)\<close> (platform.py, line 126).\<close>

definition add_fn :: "exposed_type \<Rightarrow> config \<Rightarrow> string \<Rightarrow> shape \<Rightarrow> config" where
  "add_fn et cfg n sh =
     (case et of Input \<Rightarrow> config_add_input cfg n sh | Output \<Rightarrow> config_add_output cfg n sh)"

text \<open>\<^verbatim>\<open>i or -1\<close> (platform.py, line 159): \<^verbatim>\<open>None\<close> and 0 are the false values.\<close>

definition or_minus_one :: "int option \<Rightarrow> int" where
  "or_minus_one a = (case a of None \<Rightarrow> -1 | Some i \<Rightarrow> if i = 0 then -1 else i)"

text \<open>The loop of platform.py, lines 112-129: each shape is tested, then registered.\<close>

fun declare_provided ::
  "exposed_type \<Rightarrow> config \<Rightarrow> (string, shape) dict \<Rightarrow> (error + unit) \<times> config"
where
  "declare_provided et cfg [] = (Inr (), cfg)"
| "declare_provided et cfg ((n, sh) # rest) =
     (if list_ex (\<lambda>i. i = None) (drop 1 sh) then (Inl InvalidShapeError, cfg)
      else declare_provided et (add_fn et cfg n sh) rest)"

text \<open>The loop of platform.py, lines 154-168.\<close>

fun check_declared :: "tensor_entry list \<Rightarrow> (string, shape) dict \<Rightarrow> error + unit" where
  "check_declared [] provided = Inr ()"
| "check_declared (ex # exs) provided =
     (case dict_get provided (entry_name ex) of
        None \<Rightarrow> Inl KeyError
      | Some sh \<Rightarrow>
          if dims ex \<noteq> map or_minus_one sh then Inl ShapeMismatchError
          else check_declared exs provided)"

text \<open>The comprehension of platform.py, lines 107-110: \<^verbatim>\<open>f"{exposed_type}_{i}"\<close>.\<close>

definition generic_names :: "exposed_type \<Rightarrow> shape list \<Rightarrow> (string, shape) dict" where
  "generic_names et shs =
     dict_of (map (\<lambda>(i, sh). (exposed_type_str et @ ''_'' @ str_nat i, sh)) (enumerate 0 shs))"

text \<open>The comprehension of platform.py, lines 137-139: positional pairing.\<close>

definition pair_by_position :: "tensor_entry list \<Rightarrow> shape list \<Rightarrow> (string, shape) dict" where
  "pair_by_position exposed shs = dict_of (zip (map entry_name exposed) shs)"

text \<open>The dictionary that lines 133-139 leave in \<^verbatim>\<open>provided\<close>.\<close>

definition paired_shapes :: "tensor_entry list \<Rightarrow> provided_shapes \<Rightarrow> (string, shape) dict" where
  "paired_shapes exposed p =
     (case p of ShapeDict d \<Rightarrow> dict_of d | ShapeSeq shs \<Rightarrow> pair_by_position exposed shs)"

text \<open>\<^verbatim>\<open>Platform._check_exposed_tensors\<close> (platform.py, lines 61-168).\<close>

definition check_exposed_tensors ::
  "config \<Rightarrow> exposed_type \<Rightarrow> provided_shapes option \<Rightarrow> (error + unit) \<times> config"
where
  "check_exposed_tensors cfg et provided =
     (let exposed = exposed_entries et cfg
      in if length exposed = 0 \<and> provided = None then (Inl ConfigurationError, cfg)
         else if length exposed = 0 then
           declare_provided et cfg
             (case the provided of
                ShapeDict d \<Rightarrow> dict_of d
              | ShapeSeq shs \<Rightarrow> generic_names et shs)
         else if provided \<noteq> None then
           (let p = paired_shapes exposed (the provided)
            in if length p \<noteq> length exposed
                  \<or> set (dict_keys p) \<noteq> set (map entry_name exposed)
               then (Inl ShapeMismatchError, cfg)
               else (check_declared exposed p, cfg))
         else (Inr (), cfg))"

section \<open>LocalFileSystem\<close>

text \<open>
  The local file system (io/local.py). A path is relative to the file system's root and
  is given by its components, so that \<^verbatim>\<open>os.path.join\<close> of relative paths appends them; a
  model's name is one component. The state lists the paths that exist below the root,
  each a directory or a file with its content; the root itself is a directory
  (\<^verbatim>\<open>__post_init__\<close>, line 14).
\<close>

type_synonym path = "string list"

datatype node = Dir | File string

type_synonym local_fs = "(path \<times> node) list"

definition join :: "path \<Rightarrow> path \<Rightarrow> path" where
  "join a b = a @ b"

definition node_at :: "local_fs \<Rightarrow> path \<Rightarrow> node option" where
  "node_at fs p = (if p = [] then Some Dir else map_of fs p)"

text \<open>\<^verbatim>\<open>os.path.exists\<close>, \<^verbatim>\<open>os.path.isfile\<close> and \<^verbatim>\<open>LocalFileSystem.isdir\<close> (lines 29-31).\<close>

definition path_exists :: "local_fs \<Rightarrow> path \<Rightarrow> bool" where
  "path_exists fs p \<longleftrightarrow> node_at fs p \<noteq> None"

definition isdir :: "local_fs \<Rightarrow> path \<Rightarrow> bool" where
  "isdir fs p \<longleftrightarrow> node_at fs p = Some Dir"

definition isfile :: "local_fs \<Rightarrow> path \<Rightarrow> bool" where
  "isfile fs p \<longleftrightarrow> (case node_at fs p of Some (File c) \<Rightarrow> True | _ \<Rightarrow> False)"

text \<open>\<^verbatim>\<open>os.makedirs\<close>: the missing directories along the path are created; a file on
  the way is an error.\<close>

definition makedirs :: "local_fs \<Rightarrow> path \<Rightarrow> error + local_fs" where
  "makedirs fs p =
     (if list_ex (isfile fs) (prefixes p) then Inl NotADirectoryError
      else Inr (fs @ map (\<lambda>q. (q, Dir)) (filter (\<lambda>q. \<not> path_exists fs q) (prefixes p))))"

text \<open>\<^verbatim>\<open>LocalFileSystem.soft_makedirs\<close> (lines 16-24): whether the directory was created.\<close>

definition soft_makedirs :: "local_fs \<Rightarrow> path \<Rightarrow> (error + bool) \<times> local_fs" where
  "soft_makedirs fs p =
     (if \<not> path_exists fs p then
        (case makedirs fs p of Inl e \<Rightarrow> (Inl e, fs) | Inr fs' \<Rightarrow> (Inr True, fs'))
      else (Inr False, fs))"

text \<open>\<^verbatim>\<open>LocalFileSystem.list\<close> (lines 33-36): \<^verbatim>\<open>os.listdir\<close> gives the names of the entries
  of the directory, without the directory's path.\<close>

definition list_dir :: "local_fs \<Rightarrow> path \<Rightarrow> error + string list" where
  "list_dir fs p =
     (if isdir fs p then
        Inr (map (\<lambda>(q, n). last q) (filter (\<lambda>(q, n). q \<noteq> [] \<and> butlast q = p) fs))
      else if path_exists fs p then Inl NotADirectoryError
      else Inl FileNotFoundError)"

text \<open>
  \<^verbatim>\<open>LocalFileSystem.remove\<close> (lines 50-63): a directory goes with everything below it
  (\<^verbatim>\<open>shutil.rmtree\<close>), a file goes alone. A path that is neither is handed to \<^verbatim>\<open>glob\<close>;
  a path without wildcard characters matches nothing there, which is the
  \<open>NoFilesFoundError\<close> of line 60. Wildcards are not modelled.
\<close>

definition rmtree :: "local_fs \<Rightarrow> path \<Rightarrow> local_fs" where
  "rmtree fs p = filter (\<lambda>(q, n). \<not> prefix p q) fs"

definition remove :: "local_fs \<Rightarrow> path \<Rightarrow> (error + unit) \<times> local_fs" where
  "remove fs p =
     (if isdir fs p then (Inr (), rmtree fs p)
      else if isfile fs p then (Inr (), filter (\<lambda>(q, n). q \<noteq> p) fs)
      else (Inl NoFilesFoundError, fs))"

section \<open>Model: versions and export\<close>

text \<open>\<^verbatim>\<open>Model.versions\<close> (model.py, lines 87-102). The loop hands each listed name \<^verbatim>\<open>f\<close> to
  \<^verbatim>\<open>self.fs.isdir(f)\<close> as it is.\<close>

fun versions_loop :: "local_fs \<Rightarrow> string list \<Rightarrow> int list" where
  "versions_loop fs [] = []"
| "versions_loop fs (f # rest) =
     (if isdir fs [f] then
        (case int_of_string f of
           None \<Rightarrow> versions_loop fs rest
         | Some version \<Rightarrow> version # versions_loop fs rest)
      else versions_loop fs rest)"

definition versions :: "local_fs \<Rightarrow> string \<Rightarrow> error + int list" where
  "versions fs model_nm =
     (case list_dir fs [model_nm] of Inl e \<Rightarrow> Inl e | Inr names \<Rightarrow> Inr (versions_loop fs names))"

text \<open>Python's \<^verbatim>\<open>max\<close> of a list.\<close>

fun py_max :: "int list \<Rightarrow> error + int" where
  "py_max [] = Inl MaxOfEmptyError"
| "py_max (x # xs) = Inr (fold max xs x)"

text \<open>model.py, lines 219-221: the default version.\<close>

definition target_version :: "local_fs \<Rightarrow> string \<Rightarrow> int option \<Rightarrow> error + int" where
  "target_version fs model_nm version =
     (case version of
        Some v \<Rightarrow> Inr v
      | None \<Rightarrow>
          (case versions fs model_nm of
             Inl e \<Rightarrow> Inl e
           | Inr vs \<Rightarrow> (case py_max vs of Inl e \<Rightarrow> Inl e | Inr m \<Rightarrow> Inr (m + 1))))"

text \<open>
  The exporter that \<^verbatim>\<open>_find_exporter\<close> returns is an external capability: it infers the
  output shapes and it writes the artifact at a path. Both may raise, and writing may
  leave files behind. Modelled from the spec: \<^verbatim>\<open>config.write()\<close> persists the configuration
  to storage; it is a parameter of the same kind.
\<close>

record exporter =
  get_output_shapes :: "config \<Rightarrow> error + provided_shapes"
  export_artifact :: "path \<Rightarrow> local_fs \<Rightarrow> (error + unit) \<times> local_fs"

type_synonym config_writer = "config \<Rightarrow> local_fs \<Rightarrow> (error + unit) \<times> local_fs"

text \<open>The body of the \<^verbatim>\<open>try\<close> statement (model.py, lines 231-248). \<open>filename\<close> is
  \<^verbatim>\<open>conventions[self.platform]\<close>.\<close>

definition export_steps ::
  "exporter \<Rightarrow> config_writer \<Rightarrow> string \<Rightarrow> provided_shapes option \<Rightarrow> path
     \<Rightarrow> config \<Rightarrow> local_fs \<Rightarrow> (error + unit) \<times> config \<times> local_fs"
where
  "export_steps ex config_write filename input_shapes output_dir cfg fs =
     (case check_exposed_tensors cfg Input input_shapes of
        (Inl e, cfg1) \<Rightarrow> (Inl e, cfg1, fs)
      | (Inr u, cfg1) \<Rightarrow>
          (case get_output_shapes ex cfg1 of
             Inl e \<Rightarrow> (Inl e, cfg1, fs)
           | Inr output_shapes \<Rightarrow>
               (case check_exposed_tensors cfg1 Output (Some output_shapes) of
                  (Inl e, cfg2) \<Rightarrow> (Inl e, cfg2, fs)
                | (Inr u, cfg2) \<Rightarrow>
                    (case export_artifact ex (join output_dir [filename]) fs of
                       (Inl e, fs1) \<Rightarrow> (Inl e, cfg2, fs1)
                     | (Inr u, fs1) \<Rightarrow>
                         (case config_write cfg2 fs1 of
                            (Inl e, fs2) \<Rightarrow> (Inl e, cfg2, fs2)
                          | (Inr u, fs2) \<Rightarrow> (Inr (), cfg2, fs2))))))"

text \<open>\<^verbatim>\<open>Model.export_version\<close> (model.py, lines 177-255). \<open>found\<close> is the outcome of
  \<^verbatim>\<open>_find_exporter\<close>; \<^verbatim>\<open>except Exception\<close> catches every error of the body.\<close>

definition export_version ::
  "exporter option \<Rightarrow> config_writer \<Rightarrow> string \<Rightarrow> string \<Rightarrow> int option
     \<Rightarrow> provided_shapes option \<Rightarrow> config \<Rightarrow> local_fs \<Rightarrow> (error + unit) \<times> config \<times> local_fs"
where
  "export_version found config_write filename model_nm version input_shapes cfg fs =
     (case found of
        None \<Rightarrow> (Inl NoExporterError, cfg, fs)
      | Some ex \<Rightarrow>
          (case target_version fs model_nm version of
             Inl e \<Rightarrow> (Inl e, cfg, fs)
           | Inr v \<Rightarrow>
               (let output_dir = join [model_nm] [str_int v]
                in (case soft_makedirs fs output_dir of
                      (Inl e, fs1) \<Rightarrow> (Inl e, cfg, fs1)
                    | (Inr do_remove, fs1) \<Rightarrow>
                        (case export_steps ex config_write filename input_shapes output_dir cfg fs1 of
                           (Inr u, cfg2, fs2) \<Rightarrow> (Inr (), cfg2, fs2)
                         | (Inl e, cfg2, fs2) \<Rightarrow>
                             if do_remove then
                               (case remove fs2 output_dir of
                                  (Inl e', fs3) \<Rightarrow> (Inl e', cfg2, fs3)
                                | (Inr u, fs3) \<Rightarrow> (Inl e, cfg2, fs3))
                             else (Inl e, cfg2, fs2))))))"

section \<open>Properties of pipe\<close>

text \<open>
  C4. For every ensemble and tensors \<open>a\<close>, \<open>b\<close> whose shapes differ, \<open>pipe a b\<close> fails with
  \<open>ShapeMismatchError\<close> and performs no mutation: the configuration, with its steps and
  their maps, is the one before the call, whatever key is passed.
\<close>

theorem pipe_shape_mismatch:
  assumes "shape a \<noteq> shape b"
  shows "pipe cfg a b key = (Inl ShapeMismatchError, cfg)"
  using assms by (simp add: pipe_def)

theorem pipe_shape_mismatch_witness:
  "shape \<lparr>model = ''A'', name = ''y'', shape = [None, Some 10]\<rparr>
     \<noteq> shape \<lparr>model = ''B'', name = ''z'', shape = [None, Some 4]\<rparr> \<and>
   pipe \<lparr>config_name = ''E'', input = [], output = [], steps = []\<rparr>
        \<lparr>model = ''A'', name = ''y'', shape = [None, Some 10]\<rparr>
        \<lparr>model = ''B'', name = ''z'', shape = [None, Some 4]\<rparr> None
     = (Inl ShapeMismatchError, \<lparr>config_name = ''E'', input = [], output = [], steps = []\<rparr>)"
  using pipe_shape_mismatch
    [of "\<lparr>model = ''A'', name = ''y'', shape = [None, Some 10]\<rparr>"
        "\<lparr>model = ''B'', name = ''z'', shape = [None, Some 4]\<rparr>"
        "\<lparr>config_name = ''E'', input = [], output = [], steps = []\<rparr>" None]
  by simp

text \<open>
  Every evaluation of \<open>models\<close> raises, so does every statement that tests membership in
  it, and nothing has been mutated when it does.
\<close>

lemma models_raises: "models cfg = Inl AttributeError"
  by (simp add: models_def private_config_def)

lemma ensure_step_raises: "ensure_step cfg m version = Inl AttributeError"
  by (simp add: ensure_step_def models_raises)

text \<open>
  C2. The end-to-end call: models \<open>A\<close> (output \<open>y\<close>, shape \<open>(None, 10)\<close>) and \<open>B\<close> (input
  \<open>z\<close>, shape \<open>(None, 10)\<close>) and a new ensemble \<open>E\<close>; also an ensemble whose configuration
  already has a step for each. \<open>pipe\<close> without a key does not succeed: the membership
  test of line 402 raises \<open>AttributeError\<close>, no step is added and no map is written.
\<close>

theorem pipe_end_to_end_raises:
  "pipe \<lparr>config_name = ''E'', input = [], output = [], steps = []\<rparr>
        \<lparr>model = ''A'', name = ''y'', shape = [None, Some 10]\<rparr>
        \<lparr>model = ''B'', name = ''z'', shape = [None, Some 10]\<rparr> None
     = (Inl AttributeError, \<lparr>config_name = ''E'', input = [], output = [], steps = []\<rparr>)
   \<and> pipe \<lparr>config_name = ''E'', input = [], output = [],
        steps = [\<lparr>model_name = ''A'', model_version = None,
                  input_map = (\<lambda>_. []), output_map = (\<lambda>_. [])\<rparr>,
                 \<lparr>model_name = ''B'', model_version = None,
                  input_map = (\<lambda>_. []), output_map = (\<lambda>_. [])\<rparr>]\<rparr>
        \<lparr>model = ''A'', name = ''y'', shape = [None, Some 10]\<rparr>
        \<lparr>model = ''B'', name = ''z'', shape = [None, Some 10]\<rparr> None
     = (Inl AttributeError, \<lparr>config_name = ''E'', input = [], output = [],
        steps = [\<lparr>model_name = ''A'', model_version = None,
                  input_map = (\<lambda>_. []), output_map = (\<lambda>_. [])\<rparr>,
                 \<lparr>model_name = ''B'', model_version = None,
                  input_map = (\<lambda>_. []), output_map = (\<lambda>_. [])\<rparr>]\<rparr>)"
  by (simp add: pipe_def ensure_step_raises)

text \<open>
  C3. The first call \<open>pipe a b\<close> with the key \<open>k1\<close> on a new ensemble does not succeed.
  On an ensemble whose configuration already routes the outbound tensor \<open>y\<close> of \<open>A\<close>
  under \<open>k1\<close>, the call \<open>pipe a c\<close> with the key \<open>k2\<close> fails with \<open>AttributeError\<close>, not with
  \<open>KeyConflictError\<close>; the configuration is unchanged.
\<close>

theorem pipe_key_conflict_not_reached:
  "pipe \<lparr>config_name = ''E'', input = [], output = [], steps = []\<rparr>
        \<lparr>model = ''A'', name = ''y'', shape = [None, Some 10]\<rparr>
        \<lparr>model = ''B'', name = ''z'', shape = [None, Some 10]\<rparr> (Some ''k1'')
     = (Inl AttributeError, \<lparr>config_name = ''E'', input = [], output = [], steps = []\<rparr>)
   \<and> pipe \<lparr>config_name = ''E'', input = [], output = [],
        steps = [\<lparr>model_name = ''B'', model_version = None,
                  input_map = (\<lambda>_. [])(''z'' := ''k1''), output_map = (\<lambda>_. [])\<rparr>,
                 \<lparr>model_name = ''A'', model_version = None,
                  input_map = (\<lambda>_. []), output_map = (\<lambda>_. [])(''y'' := ''k1'')\<rparr>]\<rparr>
        \<lparr>model = ''A'', name = ''y'', shape = [None, Some 10]\<rparr>
        \<lparr>model = ''B'', name = ''u'', shape = [None, Some 10]\<rparr> (Some ''k2'')
     = (Inl AttributeError, \<lparr>config_name = ''E'', input = [], output = [],
        steps = [\<lparr>model_name = ''B'', model_version = None,
                  input_map = (\<lambda>_. [])(''z'' := ''k1''), output_map = (\<lambda>_. [])\<rparr>,
                 \<lparr>model_name = ''A'', model_version = None,
                  input_map = (\<lambda>_. []), output_map = (\<lambda>_. [])(''y'' := ''k1'')\<rparr>]\<rparr>)"
  by (simp add: pipe_def ensure_step_raises)

text \<open>
  C9. \<open>pipe a b\<close> without a key, called twice on a new ensemble with tensors of equal
  shape: the first call raises \<open>AttributeError\<close> and leaves the configuration as it was,
  and the second call, on that configuration, raises it again. The second call does not
  succeed.
\<close>

theorem pipe_twice_raises:
  "fst (pipe \<lparr>config_name = ''E'', input = [], output = [], steps = []\<rparr>
        \<lparr>model = ''A'', name = ''y'', shape = [None, Some 10]\<rparr>
        \<lparr>model = ''B'', name = ''z'', shape = [None, Some 10]\<rparr> None) = Inl AttributeError
   \<and> pipe (snd (pipe \<lparr>config_name = ''E'', input = [], output = [], steps = []\<rparr>
        \<lparr>model = ''A'', name = ''y'', shape = [None, Some 10]\<rparr>
        \<lparr>model = ''B'', name = ''z'', shape = [None, Some 10]\<rparr> None))
        \<lparr>model = ''A'', name = ''y'', shape = [None, Some 10]\<rparr>
        \<lparr>model = ''B'', name = ''z'', shape = [None, Some 10]\<rparr> None
     = (Inl AttributeError, \<lparr>config_name = ''E'', input = [], output = [], steps = []\<rparr>)"
  by (simp add: pipe_def ensure_step_raises)

section \<open>Properties of add_input and add_output\<close>

text \<open>
  C5. Whatever the key, and so also when the chosen key already names an ensemble input,
  \<open>add_input\<close> fails with \<open>AttributeError\<close>, raised by the membership test of line 295
  before the key is examined; it is not \<open>DuplicateKeyError\<close>. The configuration is not
  mutated.
\<close>

theorem add_input_raises:
  "add_input cfg inp version key = (Inl AttributeError, cfg)"
  by (simp add: add_input_def ensure_step_raises)

text \<open>
  C1. Whatever the key, \<open>add_output\<close> fails with \<open>AttributeError\<close>, raised by the
  membership test of line 316: a key that names no ensemble output is not accepted and
  no output is declared.
\<close>

theorem add_output_raises:
  "add_output cfg outp version key = (Inl AttributeError, cfg)"
  by (simp add: add_output_def ensure_step_raises)

section \<open>Properties of shape validation\<close>

text \<open>
  C8. With the tensor \<open>x\<close> declared with the recorded shape \<open>[-1, 4]\<close>, the provided shape
  \<open>(0, 4)\<close> is accepted, although with each variable-length axis written as -1 it is
  \<open>[0, 4]\<close> and not the recorded shape: \<^verbatim>\<open>i or -1\<close> of line 159 turns the axis 0 into -1 as
  well. A sequence of two shapes is accepted against the one declared tensor: the
  pairing of line 138 drops the second shape before the count is compared. The
  configuration is returned as it was.
\<close>

theorem check_exposed_tensors_accepts_mismatch:
  "check_exposed_tensors \<lparr>config_name = ''m'',
        input = [\<lparr>entry_name = ''x'', dims = [-1, 4]\<rparr>], output = [], steps = []\<rparr>
        Input (Some (ShapeDict [(''x'', [Some 0, Some 4])]))
     = (Inr (), \<lparr>config_name = ''m'',
        input = [\<lparr>entry_name = ''x'', dims = [-1, 4]\<rparr>], output = [], steps = []\<rparr>)
   \<and> map axis_to_dim [Some 0, Some 4] \<noteq> [-1, 4]
   \<and> check_exposed_tensors \<lparr>config_name = ''m'',
        input = [\<lparr>entry_name = ''x'', dims = [-1, 4]\<rparr>], output = [], steps = []\<rparr>
        Input (Some (ShapeSeq [[None, Some 4], [None, Some 5]]))
     = (Inr (), \<lparr>config_name = ''m'',
        input = [\<lparr>entry_name = ''x'', dims = [-1, 4]\<rparr>], output = [], steps = []\<rparr>)
   \<and> length [[None, Some 4], [None, Some (5 :: int)]] \<noteq> length [\<lparr>entry_name = ''x'', dims = [-1, 4]\<rparr>]"
  by (simp add: check_exposed_tensors_def exposed_entries_def paired_shapes_def
        pair_by_position_def dict_of_def dict_keys_def dict_get_def or_minus_one_def
        axis_to_dim_def Let_def)

theorem check_exposed_tensors_accepts_mismatch_witness:
  "fst (check_exposed_tensors \<lparr>config_name = ''m'',
        input = [\<lparr>entry_name = ''x'', dims = [-1, 4]\<rparr>], output = [], steps = []\<rparr>
        Input (Some (ShapeDict [(''x'', [Some 0, Some 4])]))) = Inr ()
   \<and> fst (check_exposed_tensors \<lparr>config_name = ''m'',
        input = [\<lparr>entry_name = ''x'', dims = [-1, 4]\<rparr>], output = [], steps = []\<rparr>
        Input (Some (ShapeSeq [[None, Some 4], [None, Some 5]]))) = Inr ()"
  using check_exposed_tensors_accepts_mismatch by simp

section \<open>Properties of versions and export\<close>

lemma node_at_rmtree:
  "p \<noteq> [] \<Longrightarrow> node_at (rmtree fs p) q = (if prefix p q then None else node_at fs q)"
proof (induction fs)
  case Nil
  then show ?case by (auto simp: node_at_def rmtree_def)
next
  case (Cons x fs)
  then show ?case
    by (cases x) (auto simp: node_at_def rmtree_def)
qed

lemma soft_makedirs_created:
  "soft_makedirs fs p = (Inr b, fs1) \<Longrightarrow> b \<longleftrightarrow> \<not> path_exists fs p"
  by (auto simp: soft_makedirs_def split: if_splits sum.splits)

lemma soft_makedirs_isdir:
  assumes "soft_makedirs fs p = (Inr True, fs1)"
  shows "isdir fs1 p"
proof -
  from assms have n: "\<not> path_exists fs p"
    and f: "fs1 = fs @ map (\<lambda>q. (q, Dir)) (filter (\<lambda>q. \<not> path_exists fs q) (prefixes p))"
    by (auto simp: soft_makedirs_def makedirs_def split: if_splits)
  from n have p: "p \<noteq> []" and m: "map_of fs p = None"
    by (auto simp: path_exists_def node_at_def split: if_splits)
  have "p \<in> set (filter (\<lambda>q. \<not> path_exists fs q) (prefixes p))"
    using n by simp
  then have "map_of (map (\<lambda>q. (q, Dir)) (filter (\<lambda>q. \<not> path_exists fs q) (prefixes p))) p = Some Dir"
    by (simp add: map_of_map_restrict)
  with p m show ?thesis
    by (simp add: isdir_def node_at_def f map_add_def)
qed

text \<open>
  C6. When a step of the export (shape validation, the exporter's inference of the
  output shapes, or the export of the artifact) fails with an error \<open>e\<close>,
  \<open>export_version\<close> fails with \<open>e\<close> itself. If the version directory did not exist before
  the call, the call created it and afterwards nothing exists at or below it, while
  every other path is as the failing step left it. If the version directory existed
  before the call, nothing was created and nothing is removed: the storage is as the
  failing step left it. The steps that fail are assumed not to delete the version
  directory themselves.
\<close>

theorem export_version_cleanup:
  assumes "target_version fs model_nm version = Inr v"
    and "soft_makedirs fs (join [model_nm] [str_int v]) = (Inr created, fs1)"
    and "export_steps ex config_write filename input_shapes (join [model_nm] [str_int v]) cfg fs1
           = (Inl e, cfg2, fs2)"
    and "isdir fs1 (join [model_nm] [str_int v]) \<longrightarrow> isdir fs2 (join [model_nm] [str_int v])"
  shows "fst (export_version (Some ex) config_write filename model_nm version input_shapes cfg fs)
        = Inl e
    \<and> (\<not> path_exists fs (join [model_nm] [str_int v]) \<longrightarrow>
         created \<and>
         (\<forall>q. node_at (snd (snd (export_version (Some ex) config_write filename model_nm version
                   input_shapes cfg fs))) q
            = (if prefix (join [model_nm] [str_int v]) q then None else node_at fs2 q)))
    \<and> (path_exists fs (join [model_nm] [str_int v]) \<longrightarrow>
         \<not> created \<and> fs1 = fs \<and>
         snd (snd (export_version (Some ex) config_write filename model_nm version
                   input_shapes cfg fs)) = fs2)"
proof -
  let ?d = "join [model_nm] [str_int v]"
  have c: "created = (\<not> path_exists fs ?d)"
    using soft_makedirs_created[OF assms(2)] by simp
  have "created \<longrightarrow> isdir fs2 ?d"
    using soft_makedirs_isdir[of fs ?d fs1] assms(2,4) by auto
  then have r: "export_version (Some ex) config_write filename model_nm version input_shapes cfg fs
        = (Inl e, cfg2, if created then rmtree fs2 ?d else fs2)"
    using assms(1,2,3) by (simp add: export_version_def Let_def remove_def)
  have "?d \<noteq> []" by (simp add: join_def)
  then have n: "\<forall>q. node_at (rmtree fs2 ?d) q = (if prefix ?d q then None else node_at fs2 q)"
    by (simp add: node_at_rmtree)
  have u: "path_exists fs ?d \<longrightarrow> fs1 = fs"
    using assms(2) by (auto simp: soft_makedirs_def split: if_splits)
  show ?thesis
    unfolding r using c n u by simp
qed

theorem export_version_cleanup_witness:
  "(let ex = \<lparr>get_output_shapes = (\<lambda>c. Inr (ShapeSeq [[None, Some 2]])),
              export_artifact = (\<lambda>p fs. (Inl (ExportError 1), fs @ [(p, File ''partial'')]))\<rparr>;
        cw = (\<lambda>c fs. (Inr (), fs));
        cfg = \<lparr>config_name = ''m'', input = [\<lparr>entry_name = ''x'', dims = [-1, 4]\<rparr>],
               output = [], steps = []\<rparr>;
        fresh = [([''m''], Dir)];
        old = [([''m''], Dir), ([''m'', ''3''], Dir), ([''m'', ''3'', ''kept''], File ''v'')];
        r1 = export_version (Some ex) cw ''model.onnx'' ''m'' (Some 3) None cfg fresh;
        r2 = export_version (Some ex) cw ''model.onnx'' ''m'' (Some 3) None cfg old
    in \<not> path_exists fresh [''m'', ''3'']
       \<and> fst r1 = Inl (ExportError 1)
       \<and> node_at (snd (snd r1)) [''m'', ''3''] = None
       \<and> node_at (snd (snd r1)) [''m'', ''3'', ''model.onnx''] = None
       \<and> node_at (snd (snd r1)) [''m''] = Some Dir
       \<and> path_exists old [''m'', ''3'']
       \<and> fst r2 = Inl (ExportError 1)
       \<and> snd (snd r2) = old @ [([''m'', ''3'', ''model.onnx''], File ''partial'')])"
proof -
  let ?ex = "\<lparr>get_output_shapes = (\<lambda>c. Inr (ShapeSeq [[None, Some 2]])),
              export_artifact = (\<lambda>p fs. (Inl (ExportError 1), fs @ [(p, File ''partial'')]))\<rparr>"
  let ?cw = "(\<lambda>c fs. (Inr (), fs)) :: config_writer"
  let ?cfg = "\<lparr>config_name = ''m'', input = [\<lparr>entry_name = ''x'', dims = [-1, 4]\<rparr>],
               output = [], steps = []\<rparr>"
  let ?cfg2 = "\<lparr>config_name = ''m'', input = [\<lparr>entry_name = ''x'', dims = [-1, 4]\<rparr>],
               output = [\<lparr>entry_name = ''output_0'', dims = [-1, 2]\<rparr>], steps = []\<rparr>"
  let ?fresh = "[([''m''], Dir)] :: local_fs"
  let ?old = "[([''m''], Dir), ([''m'', ''3''], Dir), ([''m'', ''3'', ''kept''], File ''v'')] :: local_fs"
  have d: "join [''m''] [str_int 3] = [''m'', ''3'']"
    by (simp add: join_def str_int_def str_nat.simps)
  have t: "target_version fs ''m'' (Some 3) = Inr 3" for fs
    by (simp add: target_version_def)
  have pf: "\<not> path_exists ?fresh [''m'', ''3'']" and po: "path_exists ?old [''m'', ''3'']"
    by (simp_all add: path_exists_def node_at_def)
  have mf: "soft_makedirs ?fresh [''m'', ''3''] = (Inr True, ?fresh @ [([''m'', ''3''], Dir)])"
    by (simp add: soft_makedirs_def makedirs_def path_exists_def node_at_def isfile_def)
  have mo: "soft_makedirs ?old [''m'', ''3''] = (Inr False, ?old)"
    by (simp add: soft_makedirs_def path_exists_def node_at_def)
  have st: "export_steps ?ex ?cw ''model.onnx'' None [''m'', ''3''] ?cfg fs
      = (Inl (ExportError 1), ?cfg2, fs @ [([''m'', ''3'', ''model.onnx''], File ''partial'')])" for fs
    by (simp add: export_steps_def check_exposed_tensors_def exposed_entries_def
          generic_names_def dict_of_def exposed_type_str_def str_nat.simps add_fn_def
          config_add_output_def axis_to_dim_def join_def enumerate_eq_zip Let_def)
  have i: "isdir (?fresh @ [([''m'', ''3''], Dir)]) [''m'', ''3''] \<longrightarrow>
      isdir ((?fresh @ [([''m'', ''3''], Dir)]) @ [([''m'', ''3'', ''model.onnx''], File ''partial'')])
        [''m'', ''3'']"
      "isdir ?old [''m'', ''3''] \<longrightarrow>
      isdir (?old @ [([''m'', ''3'', ''model.onnx''], File ''partial'')]) [''m'', ''3'']"
    by (simp_all add: isdir_def node_at_def)
  note a = export_version_cleanup[where fs = ?fresh and model_nm = "''m''" and version = "Some 3"
        and v = 3 and created = True and ex = ?ex and config_write = ?cw
        and filename = "''model.onnx''" and input_shapes = None and cfg = ?cfg
        and e = "ExportError 1", unfolded d, OF t mf st i(1)]
  note b = export_version_cleanup[where fs = ?old and model_nm = "''m''" and version = "Some 3"
        and v = 3 and created = False and ex = ?ex and config_write = ?cw
        and filename = "''model.onnx''" and input_shapes = None and cfg = ?cfg
        and e = "ExportError 1", unfolded d, OF t mo st i(2)]
  let ?r1 = "export_version (Some ?ex) ?cw ''model.onnx'' ''m'' (Some 3) None ?cfg ?fresh"
  let ?r2 = "export_version (Some ?ex) ?cw ''model.onnx'' ''m'' (Some 3) None ?cfg ?old"
  from a pf have f1: "fst ?r1 = Inl (ExportError 1)"
    and q: "\<And>q. node_at (snd (snd ?r1)) q =
        (if prefix [''m'', ''3''] q then None
         else node_at ((?fresh @ [([''m'', ''3''], Dir)])
                @ [([''m'', ''3'', ''model.onnx''], File ''partial'')]) q)"
    by blast+
  have n1: "node_at (snd (snd ?r1)) [''m'', ''3''] = None"
    and n2: "node_at (snd (snd ?r1)) [''m'', ''3'', ''model.onnx''] = None"
    and n3: "node_at (snd (snd ?r1)) [''m''] = Some Dir"
    unfolding q by (simp_all add: node_at_def)
  from b po have f2: "fst ?r2 = Inl (ExportError 1)"
    and s2: "snd (snd ?r2) = ?old @ [([''m'', ''3'', ''model.onnx''], File ''partial'')]"
    by blast+
  show ?thesis
    unfolding Let_def using pf po f1 n1 n2 n3 f2 s2 by simp
qed



lemma int_of_string_123: "int_of_string ''123'' = Some 123"
  by (simp add: int_of_string_def strip_def is_space_def parse_unsigned_def digit_val_def)

lemma int_of_string_7: "int_of_string ''7'' = Some 7"
  by (simp add: int_of_string_def strip_def is_space_def parse_unsigned_def digit_val_def)

lemma int_of_string_examples:
  "int_of_string '' -1_0 '' = Some (-10)" "int_of_string ''1__0'' = None"
  "int_of_string ''config.pbtxt'' = None" "int_of_string [] = None"
  by (simp_all add: int_of_string_def strip_def is_space_def parse_unsigned_def digit_val_def)

text \<open>
  C10. \<open>versions\<close> hands the bare entry name to \<open>isdir\<close>, which reads it relative to the
  file system's root and not to the model's directory: the version directory
  \<open>test/123\<close> is not reported, and the plain file \<open>test/7\<close> is reported as version 7 when
  the root happens to hold a directory \<open>7\<close>.
\<close>

theorem versions_tests_wrong_path:
  "list_dir [([''test''], Dir), ([''test'', ''123''], Dir)] [''test''] = Inr [''123'']
   \<and> isdir [([''test''], Dir), ([''test'', ''123''], Dir)] (join [''test''] [''123''])
   \<and> int_of_string ''123'' = Some 123
   \<and> versions [([''test''], Dir), ([''test'', ''123''], Dir)] ''test'' = Inr []
   \<and> list_dir [([''test''], Dir), ([''test'', ''7''], File ''x''), ([''7''], Dir)] [''test'']
       = Inr [''7'']
   \<and> \<not> isdir [([''test''], Dir), ([''test'', ''7''], File ''x''), ([''7''], Dir)]
         (join [''test''] [''7''])
   \<and> versions [([''test''], Dir), ([''test'', ''7''], File ''x''), ([''7''], Dir)] ''test''
       = Inr [7]"
  by (simp add: list_dir_def isdir_def node_at_def join_def versions_def int_of_string_123
        int_of_string_7)

text \<open>
  C7. With no version so far, the default version is the \<^verbatim>\<open>max\<close> of an empty list: the
  call fails with that \<^verbatim>\<open>ValueError\<close> before any directory is created, and no base
  version is assigned. A version given by the caller is used as it is.
\<close>

theorem target_version_no_versions:
  "versions [([''m''], Dir)] ''m'' = Inr []
   \<and> target_version [([''m''], Dir)] ''m'' None = Inl MaxOfEmptyError
   \<and> export_version (Some ex) config_write filename ''m'' None input_shapes cfg [([''m''], Dir)]
       = (Inl MaxOfEmptyError, cfg, [([''m''], Dir)])
   \<and> target_version fs model_nm (Some v) = Inr v"
  by (simp add: list_dir_def isdir_def node_at_def versions_def target_version_def
        export_version_def)

lemma target_version_default:
  "versions fs model_nm = Inr (x # xs) \<Longrightarrow>
   target_version fs model_nm None = Inr (Max (set (x # xs)) + 1)"
  using Max.set_eq_fold[of x xs] by (simp add: target_version_def)


end
